theory Spec2Isabelle
  imports Main "HOL-Library.Signed_Division" "HOL-Library.Sublist"
begin

section \<open>Media field: aspect ratio reduction\<close>

text \<open>
  \<^verbatim>\<open>greatestCommonDenominator\<close> and \<^verbatim>\<open>fractReduce\<close> of the media field work on
  JavaScript numbers. The model covers integral numbers (pixel dimensions), for which
  \<^verbatim>\<open>%\<close> is the remainder that takes the sign of the dividend (\<open>smod\<close>) and
  \<^verbatim>\<open>/\<close> is exact whenever the divisor divides the dividend.
\<close>

function greatestCommonDenominator :: "int \<Rightarrow> int \<Rightarrow> int" where
  "greatestCommonDenominator numerator denominator =
     (if denominator \<noteq> 0
      then greatestCommonDenominator denominator (numerator smod denominator)
      else numerator)"
  by pat_completeness auto
termination
proof (relation "measure (\<lambda>(n, d). nat \<bar>d\<bar>)")
  show "wf (measure (\<lambda>(n::int, d::int). nat \<bar>d\<bar>))" by simp
next
  fix numerator denominator :: int
  assume "denominator \<noteq> 0"
  then have "\<bar>numerator smod denominator\<bar> < \<bar>denominator\<bar>"
    by (simp add: smod_int_alt_def abs_mult sgn_if)
  then show "((denominator, numerator smod denominator), (numerator, denominator))
      \<in> measure (\<lambda>(n, d). nat \<bar>d\<bar>)"
    by simp
qed

declare greatestCommonDenominator.simps [simp del]

text \<open>
  \<^verbatim>\<open>a / b\<close> on integral numbers: the quotient when it is an integer again; \<open>None\<close>
  stands for every other outcome of the floating point division (a fraction,
  \<^verbatim>\<open>NaN\<close> or an infinity).
\<close>

definition js_divide :: "int \<Rightarrow> int \<Rightarrow> int option" where
  "js_divide a b = (if b \<noteq> 0 \<and> b dvd a then Some (a sdiv b) else None)"

definition fractReduce :: "int \<Rightarrow> int \<Rightarrow> int option \<times> int option" where
  "fractReduce numerator denominator =
     (let fracGcd = greatestCommonDenominator numerator denominator
      in (js_divide numerator fracGcd, js_divide denominator fracGcd))"

section \<open>Server API: resolving request URLs\<close>

text \<open>
  \<^verbatim>\<open>path.replace(/\/*/, '')\<close>: a regular expression without the global flag replaces
  its first match, looked for from index 0 on. \<^verbatim>\<open>\/*\<close> matches greedily the run of
  slashes at the index tried, and the empty run is a match too, so the search stops at
  index 0. \<open>match_slashes\<close> is the length of that match.
\<close>

fun match_slashes :: "string \<Rightarrow> nat" where
  "match_slashes [] = 0"
| "match_slashes (c # cs) = (if c = CHR ''/'' then Suc (match_slashes cs) else 0)"

definition replace_slashes :: "string \<Rightarrow> string \<Rightarrow> string" where
  "replace_slashes path replacement = replacement @ drop (match_slashes path) path"

text \<open>\<^verbatim>\<open>baseUrl\<close> is a getter that each subclass of \<^verbatim>\<open>ServerApi\<close> supplies.\<close>

definition resolveUrl :: "string \<Rightarrow> string \<Rightarrow> string" where
  "resolveUrl baseUrl path = baseUrl @ replace_slashes path []"

section \<open>Deep cleaning of records and arrays\<close>














section \<open>The editor's render loop\<close>

text \<open>
  The two flags of \<^verbatim>\<open>LiveEditor\<close>, and two counters for what \<^verbatim>\<open>render\<close> does to the
  outside: \<open>rendered\<close> counts the calls of \<^verbatim>\<open>render(this.template(this), this.container)\<close>,
  \<open>completed\<close> the \<^verbatim>\<open>EVENT_RENDER_COMPLETE\<close> events dispatched.
\<close>

record LiveEditor =
  isPendingRender :: bool
  isRendering :: bool
  rendered :: nat
  completed :: nat

text \<open>
  A call of \<^verbatim>\<open>this.render()\<close> made from inside the template (a part asking for a
  render while the editor renders) finds \<open>isRendering\<close> set and takes the first
  branch of \<^verbatim>\<open>render\<close>.
\<close>

definition reentrant_render :: "LiveEditor \<Rightarrow> LiveEditor" where
  "reentrant_render e = e\<lparr>isPendingRender := True\<rparr>"

text \<open>Rendering the template once, during which \<open>n\<close> render requests arrive.\<close>

definition render_template :: "nat \<Rightarrow> LiveEditor \<Rightarrow> LiveEditor" where
  "render_template n e = (reentrant_render ^^ n) (e\<lparr>rendered := rendered e + 1\<rparr>)"

text \<open>
  \<^verbatim>\<open>LiveEditor.render\<close>. The first argument scripts the environment: its \<open>k\<close>-th
  number is how many render requests arrive during the \<open>k\<close>-th rendering of the
  template, and none arrive once it is used up. Listeners of the completion event are
  taken not to call \<^verbatim>\<open>render\<close>.
\<close>

function render :: "nat list \<Rightarrow> LiveEditor \<Rightarrow> LiveEditor" where
  "render script e =
     (if isRendering e then e\<lparr>isPendingRender := True\<rparr>
      else
        let e1 = e\<lparr>isPendingRender := False, isRendering := True\<rparr>;
            e2 = render_template (case script of [] \<Rightarrow> 0 | n # _ \<Rightarrow> n) e1;
            e3 = e2\<lparr>isRendering := False, completed := completed e2 + 1\<rparr>
        in if isPendingRender e3 then render (tl script) e3 else e3)"
  by pat_completeness auto
termination
proof (relation "measure (\<lambda>(script, e). length script)")
  show "wf (measure (\<lambda>(script :: nat list, e :: LiveEditor). length script))" by simp
next
  fix script :: "nat list" and e e1 e2 e3 :: LiveEditor
  assume e1: "e1 = e\<lparr>isPendingRender := False, isRendering := True\<rparr>"
    and e2: "e2 = render_template (case script of [] \<Rightarrow> 0 | n # _ \<Rightarrow> n) e1"
    and e3: "e3 = e2\<lparr>isRendering := False, completed := completed e2 + 1\<rparr>"
    and pending: "isPendingRender e3"
  have "\<not> isPendingRender (render_template 0 e1)"
    using e1 by (simp add: render_template_def)
  with e2 e3 pending have "script \<noteq> []"
    by (cases script) auto
  then show "((tl script, e3), (script, e)) \<in> measure (\<lambda>(script, e). length script)"
    by simp
qed

declare render.simps [simp del]

section \<open>GitHub onboarding\<close>

subsection \<open>JavaScript values in conditions and strings\<close>

text \<open>
  An optional string (or number) used as a condition: \<^verbatim>\<open>undefined\<close> is falsy, and so
  are the empty string and the number 0.
\<close>

definition truthy :: "string option \<Rightarrow> bool" where
  "truthy v = (case v of None \<Rightarrow> False | Some s \<Rightarrow> s \<noteq> [])"

definition truthy_number :: "int option \<Rightarrow> bool" where
  "truthy_number v = (case v of None \<Rightarrow> False | Some n \<Rightarrow> n \<noteq> 0)"

text \<open>\<^verbatim>\<open>v || undefined\<close> and \<^verbatim>\<open>v || ''\<close> for an optional string \<open>v\<close>.\<close>

definition or_undefined :: "string option \<Rightarrow> string option" where
  "or_undefined v = (if truthy v then v else None)"

definition or_empty :: "string option \<Rightarrow> string" where
  "or_empty v = (case v of None \<Rightarrow> [] | Some s \<Rightarrow> s)"

text \<open>An optional string inside a template literal: \<^verbatim>\<open>`${v}`\<close>.\<close>

definition interpolate :: "string option \<Rightarrow> string" where
  "interpolate v = (case v of None \<Rightarrow> ''undefined'' | Some s \<Rightarrow> s)"

text \<open>
  Strings are sequences of characters with codes below 256. \<^verbatim>\<open>trim\<close> strips white
  space and line terminators from both ends; in this range these are the codes
  9 to 13, 32 and 160.
\<close>

definition is_whitespace :: "char \<Rightarrow> bool" where
  "is_whitespace c =
     (c \<in> set [CHR 0x09, CHR 0x0A, CHR 0x0B, CHR 0x0C, CHR 0x0D, CHR 0x20, CHR 0xA0])"

definition trim :: "string \<Rightarrow> string" where
  "trim s = rev (dropWhile is_whitespace (rev (dropWhile is_whitespace s)))"

text \<open>\<^verbatim>\<open>s.includes(search)\<close>: \<open>search\<close> occurs in \<open>s\<close> as a contiguous piece.\<close>

definition string_includes :: "string \<Rightarrow> string \<Rightarrow> bool" where
  "string_includes s search = sublist search s"

text \<open>\<^verbatim>\<open>s.replace(pattern, '')\<close> with a string pattern: the first occurrence goes.\<close>

fun remove_first :: "string \<Rightarrow> string \<Rightarrow> string" where
  "remove_first pattern [] = []"
| "remove_first pattern (c # cs) =
     (if prefix pattern (c # cs) then drop (length pattern) (c # cs)
      else c # remove_first pattern cs)"

subsection \<open>Data of the onboarding part\<close>

text \<open>
  The three kinds of list items; \<open>inst_id\<close> is the field \<^verbatim>\<open>id\<close> of an installation.
\<close>

record GitHubInstallationInfo =
  org :: string
  inst_id :: int
  url :: string

record GitHubOrgInstallationInfo =
  repo_org :: string
  repo :: string
  updatedAt :: "string option"

record WorkspaceData =
  name :: string

text \<open>
  A history state object as the part writes and reads it. \<open>onboarding\<close> holds when
  the object's field \<^verbatim>\<open>onboarding\<close> is \<^verbatim>\<open>true\<close>; an absent field is \<open>None\<close>.
\<close>

record NavigationEntry =
  onboarding :: bool
  nav_organization :: "string option"
  nav_repository :: "string option"
  nav_branch :: "string option"

datatype api_call =
    GetOrganizations
  | GetRepositories int
  | GetWorkspaces "string option" "string option"

datatype api_response =
    Organizations "GitHubInstallationInfo list"
  | Repositories "GitHubOrgInstallationInfo list"
  | Workspaces "WorkspaceData list"

datatype js_error = TypeError

text \<open>
  The state of \<^verbatim>\<open>GitHubOnboardingPart\<close>. The \<open>api_\<close> fields are the identity held by
  \<^verbatim>\<open>this.api\<close> (\<open>api_checkAuth\<close> is what \<^verbatim>\<open>checkAuth()\<close> answers). The fields after
  \<open>workspacesId\<close> record what the part does to the outside: \<open>requests\<close> are the calls
  of the API whose promise is not settled yet, oldest first; \<open>pushed\<close> the arguments of
  the \<^verbatim>\<open>history.pushState\<close> calls; \<open>renderRequests\<close> counts \<^verbatim>\<open>this.render()\<close>,
  \<open>onboardingUpdates\<close> the \<^verbatim>\<open>EVENT_ONBOARDING_UPDATE\<close> events, \<open>onboardingChecks\<close> the
  calls of \<^verbatim>\<open>checkOnboarding\<close>; \<open>consoleErrors\<close> are the messages logged. The last
  two fields are not in the source: they remember the arguments of the request whose
  response is the list held, so that one can say what a list was fetched for.
\<close>

record GitHubOnboardingPart =
  api_checkAuth :: bool
  api_organization :: "string option"
  api_project :: "string option"
  api_branch :: "string option"
  organizations :: "GitHubInstallationInfo list option"
  installation :: "GitHubInstallationInfo option"
  listFilter :: "string option"
  repositories :: "GitHubOrgInstallationInfo list option"
  repositoriesId :: "int option"
  workspaces :: "WorkspaceData list option"
  workspacesId :: "string option"
  requests :: "api_call list"
  pushed :: "(NavigationEntry \<times> string \<times> string) list"
  renderRequests :: nat
  onboardingUpdates :: nat
  onboardingChecks :: nat
  consoleErrors :: "string list"
  repositoriesFetchedFor :: "int option"
  workspacesFetchedFor :: "(string option \<times> string option) option"

definition BASE_URL :: string where
  "BASE_URL = ''/gh/''"

definition MIN_FILTER_LENGTH :: nat where
  "MIN_FILTER_LENGTH = 9"

subsection \<open>Operations of the onboarding part\<close>

definition generateUrl :: "string option \<Rightarrow> string option \<Rightarrow> string option \<Rightarrow> string" where
  "generateUrl organization repository workspace =
     (if truthy organization \<and> truthy repository \<and> truthy workspace
      then BASE_URL @ or_empty organization @ ''/'' @ or_empty repository @ ''/'' @
           or_empty workspace @ ''/''
      else if truthy organization \<and> truthy repository
      then BASE_URL @ or_empty organization @ ''/'' @ or_empty repository @ ''/''
      else if truthy organization
      then BASE_URL @ or_empty organization @ ''/''
      else BASE_URL)"

text \<open>\<^verbatim>\<open>this.render()\<close> of the part asks the editor for a render.\<close>

definition part_render :: "GitHubOnboardingPart \<Rightarrow> GitHubOnboardingPart" where
  "part_render p = p\<lparr>renderRequests := renderRequests p + 1\<rparr>"

definition handleFilterInput :: "string \<Rightarrow> GitHubOnboardingPart \<Rightarrow> GitHubOnboardingPart" where
  "handleFilterInput v p = part_render (p\<lparr>listFilter := Some v\<rparr>)"

text \<open>
  \<^verbatim>\<open>handlePopstate\<close>. The event's \<^verbatim>\<open>state\<close> is \<^verbatim>\<open>null\<close> (\<open>None\<close>) for a history
  entry that no \<^verbatim>\<open>pushState\<close> or \<^verbatim>\<open>replaceState\<close> gave a state; reading
  \<^verbatim>\<open>evt.state.onboarding\<close> then throws a \<^verbatim>\<open>TypeError\<close>.
\<close>

definition handlePopstate ::
  "NavigationEntry option \<Rightarrow> GitHubOnboardingPart \<Rightarrow> js_error + GitHubOnboardingPart" where
  "handlePopstate state p =
     (case state of
        None \<Rightarrow> Inl TypeError
      | Some s \<Rightarrow>
          if onboarding s
          then Inr (p\<lparr>api_organization := or_undefined (nav_organization s),
                      api_project := or_undefined (nav_repository s),
                      api_branch := or_undefined (nav_branch s),
                      onboardingChecks := onboardingChecks p + 1\<rparr>)
          else Inr p)"

text \<open>
  The three loaders issue their request; what their \<^verbatim>\<open>then\<close> and \<^verbatim>\<open>catch\<close>
  callbacks do when the promise settles is \<open>resolved\<close> and \<open>rejected\<close> below.
\<close>

definition loadWorkspaces :: "GitHubOnboardingPart \<Rightarrow> GitHubOnboardingPart" where
  "loadWorkspaces p =
     p\<lparr>requests := requests p @ [GetWorkspaces (api_organization p) (api_project p)]\<rparr>"

definition loadOrganizations :: "GitHubOnboardingPart \<Rightarrow> GitHubOnboardingPart" where
  "loadOrganizations p = p\<lparr>requests := requests p @ [GetOrganizations]\<rparr>"

definition loadRepositories :: "GitHubOnboardingPart \<Rightarrow> GitHubOnboardingPart" where
  "loadRepositories p =
     (let p1 = (if organizations p = None then loadOrganizations p else p);
          searching = (installation p1 = None \<and> truthy (api_organization p1) \<and>
                       organizations p1 \<noteq> None);
          p2 = (if searching
                then p1\<lparr>installation :=
                        find (\<lambda>organization. Some (org organization) = api_organization p1)
                          (case organizations p1 of None \<Rightarrow> [] | Some os \<Rightarrow> os)\<rparr>
                else p1)
      in if searching \<and> installation p2 = None
         then part_render
                (p2\<lparr>consoleErrors := consoleErrors p2 @
                        [''No installation found for '' @ interpolate (api_organization p2)],
                    repositories := Some [], repositoriesFetchedFor := None\<rparr>)
         else (case installation p2 of
                 None \<Rightarrow> p2
               | Some i \<Rightarrow> p2\<lparr>requests := requests p2 @ [GetRepositories (inst_id i)]\<rparr>))"

text \<open>
  A promise settles: the request leaves \<open>requests\<close> and the loader's \<^verbatim>\<open>then\<close>
  callback runs with the response (\<open>resolved\<close>) or its \<^verbatim>\<open>catch\<close> callback logs
  the failure (\<open>rejected\<close>). A request can only settle when it was made, and it is
  answered with a list of its own kind.
\<close>

definition resolved ::
  "api_call \<Rightarrow> api_response \<Rightarrow> GitHubOnboardingPart \<Rightarrow> GitHubOnboardingPart" where
  "resolved call response p =
     (if call \<notin> set (requests p) then p
      else
        let p1 = p\<lparr>requests := remove1 call (requests p)\<rparr>
        in (case (call, response) of
              (GetOrganizations, Organizations os) \<Rightarrow>
                part_render (p1\<lparr>organizations := Some os\<rparr>)
            | (GetRepositories i, Repositories rs) \<Rightarrow>
                part_render (p1\<lparr>repositories := Some rs,
                                repositoriesId := map_option inst_id (installation p1),
                                repositoriesFetchedFor := Some i\<rparr>)
            | (GetWorkspaces organization project, Workspaces ws) \<Rightarrow>
                part_render (p1\<lparr>workspaces := Some ws,
                                workspacesId := api_project p1,
                                workspacesFetchedFor := Some (organization, project)\<rparr>)
            | _ \<Rightarrow> p))"

definition rejected :: "api_call \<Rightarrow> GitHubOnboardingPart \<Rightarrow> GitHubOnboardingPart" where
  "rejected call p =
     (if call \<notin> set (requests p) then p
      else
        let p1 = p\<lparr>requests := remove1 call (requests p)\<rparr>
        in p1\<lparr>consoleErrors := consoleErrors p1 @
               [case call of
                  GetOrganizations \<Rightarrow> ''Unable to retrieve the list of organizations.''
                | GetRepositories i \<Rightarrow> ''Unable to retrieve the list of repositories.''
                | GetWorkspaces organization project \<Rightarrow>
                    ''Unable to retrieve the list of branches.'']\<rparr>)"

subsection \<open>Templates\<close>

text \<open>
  The filter shared by the three list templates, with the accessor of the item's name
  as parameter: \<^verbatim>\<open>let filtered = list; if (list && this.listFilter &&
  this.listFilter.trim() !== '') filtered = list.filter(x => name(x).includes(this.listFilter || ''))\<close>.
\<close>

definition filtered_list ::
  "('a \<Rightarrow> string) \<Rightarrow> string option \<Rightarrow> 'a list option \<Rightarrow> 'a list option" where
  "filtered_list display flt items =
     (case items of
        None \<Rightarrow> None
      | Some xs \<Rightarrow>
          if truthy flt \<and> trim (or_empty flt) \<noteq> []
          then Some (filter (\<lambda>x. string_includes (display x) (or_empty flt)) xs)
          else Some xs)"

text \<open>
  What a template shows, as far as the lists go: the items handed to \<^verbatim>\<open>repeat\<close>
  (\<^verbatim>\<open>filtered || []\<close>), whether the loading status is shown (the list is absent) and
  whether the filter input is shown.
\<close>

datatype step = Login | ChooseOrg | ChooseRepo | ChooseWorkspace

datatype view =
    LoginView
  | OrganizationsView "GitHubInstallationInfo list" bool bool
  | RepositoriesView "GitHubOrgInstallationInfo list" bool bool
  | WorkspacesView "WorkspaceData list" bool bool

fun step_of :: "view \<Rightarrow> step" where
  "step_of LoginView = Login"
| "step_of (OrganizationsView items loading useFilter) = ChooseOrg"
| "step_of (RepositoriesView items loading useFilter) = ChooseRepo"
| "step_of (WorkspacesView items loading useFilter) = ChooseWorkspace"

fun loading :: "view \<Rightarrow> bool" where
  "loading LoginView = False"
| "loading (OrganizationsView items l useFilter) = l"
| "loading (RepositoriesView items l useFilter) = l"
| "loading (WorkspacesView items l useFilter) = l"

definition use_filter :: "'a list option \<Rightarrow> bool" where
  "use_filter items =
     (case items of None \<Rightarrow> False | Some xs \<Rightarrow> MIN_FILTER_LENGTH < length xs)"

definition shown :: "'a list option \<Rightarrow> 'a list" where
  "shown filtered = (case filtered of None \<Rightarrow> [] | Some xs \<Rightarrow> xs)"

definition templateOrganizations :: "GitHubOnboardingPart \<Rightarrow> GitHubOnboardingPart \<times> view" where
  "templateOrganizations p =
     (let p1 = (if organizations p = None then loadOrganizations p else p);
          useFilter = use_filter (organizations p1);
          filtered = filtered_list org (listFilter p1) (organizations p1)
      in (p1, OrganizationsView (shown filtered) (organizations p1 = None) useFilter))"

definition templateRepositories :: "GitHubOnboardingPart \<Rightarrow> GitHubOnboardingPart \<times> view" where
  "templateRepositories p =
     (let p1 = (if repositories p \<noteq> None \<and> truthy_number (repositoriesId p) \<and>
                   map_option inst_id (installation p) \<noteq> repositoriesId p
                then p\<lparr>repositories := None\<rparr> else p);
          p2 = (if repositories p1 = None then loadRepositories p1 else p1);
          useFilter = use_filter (repositories p2);
          filtered = filtered_list repo (listFilter p2) (repositories p2)
      in (p2, RepositoriesView (shown filtered) (repositories p2 = None) useFilter))"

definition templateWorkspaces :: "GitHubOnboardingPart \<Rightarrow> GitHubOnboardingPart \<times> view" where
  "templateWorkspaces p =
     (let p1 = (if workspaces p \<noteq> None \<and> truthy (workspacesId p) \<and>
                   api_project p \<noteq> workspacesId p
                then p\<lparr>workspaces := None\<rparr> else p);
          useFilter = use_filter (workspaces p1);
          p2 = (if workspaces p1 = None then loadWorkspaces p1 else p1);
          filtered = filtered_list name (listFilter p2) (workspaces p2)
      in (p2, WorkspacesView (shown filtered) (workspaces p2 = None) useFilter))"

definition template :: "GitHubOnboardingPart \<Rightarrow> GitHubOnboardingPart \<times> view" where
  "template p =
     (if \<not> api_checkAuth p then (p, LoginView)
      else if \<not> truthy (api_organization p) then templateOrganizations p
      else if \<not> truthy (api_project p) then templateRepositories p
      else templateWorkspaces p)"

subsection \<open>Click handlers\<close>

definition clickOrganization ::
  "GitHubInstallationInfo \<Rightarrow> GitHubOnboardingPart \<Rightarrow> GitHubOnboardingPart" where
  "clickOrganization organization p =
     part_render
       (p\<lparr>api_organization := Some (org organization),
          installation := Some organization,
          listFilter := None,
          pushed := pushed p @
            [(\<lparr>onboarding = True, nav_organization = Some (org organization),
               nav_repository = None, nav_branch = None\<rparr>,
              org organization,
              generateUrl (Some (org organization)) None None)]\<rparr>)"

definition clickRecentProject :: "string \<Rightarrow> GitHubOnboardingPart \<Rightarrow> GitHubOnboardingPart" where
  "clickRecentProject projectId p =
     (let repository = remove_first (interpolate (api_organization p) @ ''/'') projectId
      in part_render
           (p\<lparr>api_project := Some repository,
              listFilter := None,
              pushed := pushed p @
                [(\<lparr>onboarding = True, nav_organization = api_organization p,
                   nav_repository = Some repository, nav_branch = None\<rparr>,
                  repository,
                  generateUrl (api_organization p) (Some repository) None)]\<rparr>))"

definition clickRepository ::
  "GitHubOrgInstallationInfo \<Rightarrow> GitHubOnboardingPart \<Rightarrow> GitHubOnboardingPart" where
  "clickRepository repository p =
     part_render
       (p\<lparr>api_project := Some (repo repository),
          listFilter := None,
          pushed := pushed p @
            [(\<lparr>onboarding = True, nav_organization = api_organization p,
               nav_repository = Some (repo repository), nav_branch = None\<rparr>,
              repo repository,
              generateUrl (api_organization p) (Some (repo repository)) None)]\<rparr>)"

definition clickWorkspace :: "WorkspaceData \<Rightarrow> GitHubOnboardingPart \<Rightarrow> GitHubOnboardingPart" where
  "clickWorkspace workspace p =
     p\<lparr>api_branch := Some (name workspace),
       pushed := pushed p @
         [(\<lparr>onboarding = True, nav_organization = api_organization p,
            nav_repository = api_project p, nav_branch = Some (name workspace)\<rparr>,
           name workspace,
           generateUrl (api_organization p) (api_project p) (Some (name workspace)))],
       onboardingUpdates := onboardingUpdates p + 1\<rparr>"

subsection \<open>Events\<close>

text \<open>
  What can happen to the part, one event at a time: the editor renders its template, the
  browser fires \<^verbatim>\<open>popstate\<close>, the user clicks an item or types into the filter, a
  promise settles. An exception thrown by a handler ends that handler; the part stays as
  the handler left it (\<^verbatim>\<open>handlePopstate\<close> throws before it changes anything).
\<close>

datatype event =
    Render
  | Popstate "NavigationEntry option"
  | ClickOrganization GitHubInstallationInfo
  | ClickRepository GitHubOrgInstallationInfo
  | ClickRecentProject string
  | ClickWorkspace WorkspaceData
  | FilterInput string
  | Resolved api_call api_response
  | Rejected api_call

fun handle :: "event \<Rightarrow> GitHubOnboardingPart \<Rightarrow> GitHubOnboardingPart" where
  "handle Render p = fst (template p)"
| "handle (Popstate state) p =
     (case handlePopstate state p of Inl e \<Rightarrow> p | Inr p' \<Rightarrow> p')"
| "handle (ClickOrganization organization) p = clickOrganization organization p"
| "handle (ClickRepository repository) p = clickRepository repository p"
| "handle (ClickRecentProject projectId) p = clickRecentProject projectId p"
| "handle (ClickWorkspace workspace) p = clickWorkspace workspace p"
| "handle (FilterInput v) p = handleFilterInput v p"
| "handle (Resolved call response) p = resolved call response p"
| "handle (Rejected call) p = rejected call p"

fun run :: "event list \<Rightarrow> GitHubOnboardingPart \<Rightarrow> GitHubOnboardingPart" where
  "run [] p = p"
| "run (e # es) p = run es (handle e p)"

text \<open>The part right after its construction, for a user who is logged in.\<close>

definition fresh_part :: GitHubOnboardingPart where
  "fresh_part =
     \<lparr>api_checkAuth = True, api_organization = None, api_project = None, api_branch = None,
      organizations = None, installation = None, listFilter = None,
      repositories = None, repositoriesId = None, workspaces = None, workspacesId = None,
      requests = [], pushed = [], renderRequests = 0, onboardingUpdates = 0,
      onboardingChecks = 0, consoleErrors = [],
      repositoriesFetchedFor = None, workspacesFetchedFor = None\<rparr>"

subsection \<open>A session with two organizations\<close>

text \<open>
  Two organizations that each have a repository called \<open>site\<close>, and a user who picks
  \<open>acme/site\<close>, goes back twice with the browser's back button and then picks
  \<open>other/site\<close>.
\<close>

definition acme :: GitHubInstallationInfo where
  "acme = \<lparr>org = ''acme'', inst_id = 1, url = ''https://github.com/settings/installations/1''\<rparr>"

definition other :: GitHubInstallationInfo where
  "other = \<lparr>org = ''other'', inst_id = 2, url = ''https://github.com/settings/installations/2''\<rparr>"

definition acme_site :: GitHubOrgInstallationInfo where
  "acme_site = \<lparr>repo_org = ''acme'', repo = ''site'', updatedAt = None\<rparr>"

definition other_site :: GitHubOrgInstallationInfo where
  "other_site = \<lparr>repo_org = ''other'', repo = ''site'', updatedAt = None\<rparr>"

definition acme_branches :: "WorkspaceData list" where
  "acme_branches = [\<lparr>name = ''main''\<rparr>, \<lparr>name = ''workspace/acme-launch''\<rparr>]"

definition two_sites_session :: "event list" where
  "two_sites_session =
     [Render,
      Resolved GetOrganizations (Organizations [acme, other]),
      Render,
      ClickOrganization acme,
      Render,
      Resolved (GetRepositories 1) (Repositories [acme_site]),
      ClickRepository acme_site,
      Render,
      Resolved (GetWorkspaces (Some ''acme'') (Some ''site'')) (Workspaces acme_branches),
      Popstate (Some \<lparr>onboarding = True, nav_organization = Some ''acme'',
                       nav_repository = None, nav_branch = None\<rparr>),
      Popstate (Some \<lparr>onboarding = True, nav_organization = None,
                       nav_repository = None, nav_branch = None\<rparr>),
      Render,
      ClickOrganization other,
      Render,
      Resolved (GetRepositories 2) (Repositories [other_site]),
      ClickRepository other_site]"

text \<open>A part showing a filtered list of workspaces, before one of them is clicked.\<close>

definition filtering_workspaces :: GitHubOnboardingPart where
  "filtering_workspaces =
     fresh_part\<lparr>api_organization := Some ''acme'', api_project := Some ''site'',
                 listFilter := Some ''ma'', workspaces := Some acme_branches,
                 workspacesId := Some ''site''\<rparr>"

section \<open>Aspect ratio reduction: properties\<close>

lemma smod_nonneg_eq_mod: "0 \<le> a \<Longrightarrow> 0 \<le> b \<Longrightarrow> a smod b = a mod b" for a b :: int
  by (simp add: smod_int_alt_def sgn_if)

lemma gcd_nonneg_eq:
  "0 \<le> a \<Longrightarrow> 0 \<le> b \<Longrightarrow> greatestCommonDenominator a b = gcd a b"
proof (induction a b rule: greatestCommonDenominator.induct)
  case (1 n d)
  show ?case
  proof (cases "d = 0")
    case True
    with "1.prems" show ?thesis
      by (simp add: greatestCommonDenominator.simps [of n 0])
  next
    case False
    with "1.prems" have d: "0 < d" by simp
    have m: "n smod d = n mod d"
      using "1.prems" by (simp add: smod_nonneg_eq_mod)
    have "greatestCommonDenominator n d = greatestCommonDenominator d (n mod d)"
      using False by (simp add: greatestCommonDenominator.simps [of n d] m)
    also have "\<dots> = gcd d (n mod d)"
      using "1.IH" [OF False] "1.prems" d m by simp
    also have "\<dots> = gcd n d"
      by (simp add: gcd.commute gcd_red_int [symmetric])
    finally show ?thesis .
  qed
qed

lemma sdiv_nonneg_eq_div: "0 \<le> a \<Longrightarrow> 0 < b \<Longrightarrow> a sdiv b = a div b" for a b :: int
  by (simp add: signed_divide_int_def sgn_if)

lemma fractReduce_pos:
  assumes "0 < a" "0 < b"
  shows "fractReduce a b = (Some (a div gcd a b), Some (b div gcd a b))"
proof -
  have g: "greatestCommonDenominator a b = gcd a b"
    using assms by (simp add: gcd_nonneg_eq)
  have pos: "0 < gcd a b"
    using assms by simp
  show ?thesis
    using assms pos by (simp add: fractReduce_def Let_def g js_divide_def sdiv_nonneg_eq_div)
qed

text \<open>
  C6. For all positive integers \<open>a\<close> and \<open>b\<close>, \<open>fractReduce a b\<close> returns a pair of
  integers in lowest terms (their gcd is 1) with the same ratio as \<open>a / b\<close>
  (cross-multiplied: \<open>p * b = q * a\<close>); the gcd is the recursive Euclidean
  algorithm with \<open>gcd(a, 0) = a\<close>, a total function; and
  \<open>fractReduce 16 9 = fractReduce 1920 1080 = (16, 9)\<close>.
\<close>

theorem fractReduce_lowest_terms:
  "(0 < a \<and> 0 < b \<longrightarrow>
      (\<exists>p q. fractReduce a b = (Some p, Some q) \<and> 0 < p \<and> 0 < q \<and>
         gcd p q = 1 \<and> p * b = q * a \<and>
         p * greatestCommonDenominator a b = a \<and> q * greatestCommonDenominator a b = b))
   \<and> greatestCommonDenominator a 0 = a
   \<and> fractReduce 16 9 = (Some 16, Some 9)
   \<and> fractReduce 1920 1080 = (Some 16, Some 9)"
proof (intro conjI impI)
  assume ab: "0 < a \<and> 0 < b"
  then have a: "0 < a" and b: "0 < b" by simp_all
  let ?g = "gcd a b"
  have g: "greatestCommonDenominator a b = ?g"
    using a b by (simp add: gcd_nonneg_eq)
  have pos: "0 < ?g" using a by simp
  have pa: "a div ?g * ?g = a" and qb: "b div ?g * ?g = b" by simp_all
  have "?g \<le> a" "?g \<le> b"
    using a b by (simp_all add: gcd_le1_int gcd_le2_int)
  then have p0: "0 < a div ?g" and q0: "0 < b div ?g"
    using pos by (simp_all add: pos_imp_zdiv_pos_iff)
  have cop: "gcd (a div ?g) (b div ?g) = 1"
    using a div_gcd_coprime [of a b] by (simp add: coprime_iff_gcd_eq_1)
  have cross: "a div ?g * b = b div ?g * a"
  proof -
    have "a div ?g * b = a div ?g * (b div ?g * ?g)" by (simp only: qb)
    also have "\<dots> = b div ?g * (a div ?g * ?g)" by (simp only: mult.left_commute)
    also have "\<dots> = b div ?g * a" by (simp only: pa)
    finally show ?thesis .
  qed
  show "\<exists>p q. fractReduce a b = (Some p, Some q) \<and> 0 < p \<and> 0 < q \<and>
         gcd p q = 1 \<and> p * b = q * a \<and>
         p * greatestCommonDenominator a b = a \<and> q * greatestCommonDenominator a b = b"
    using fractReduce_pos [OF a b] p0 q0 cop cross pa qb g by simp
next
  show "greatestCommonDenominator a 0 = a"
    by (simp add: greatestCommonDenominator.simps [of a 0])
next
  have "fractReduce 16 9 = (Some (16 div gcd 16 9), Some (9 div gcd 16 9))"
    by (rule fractReduce_pos) simp_all
  moreover have "gcd (16::int) 9 = 1"
    by (simp add: gcd_red_int [of 16 9] gcd_red_int [of 9 7] gcd_red_int [of 7 2]
        gcd_red_int [of 2 1])
  ultimately show "fractReduce 16 9 = (Some 16, Some 9)" by simp
next
  have "fractReduce 1920 1080 =
      (Some (1920 div gcd 1920 1080), Some (1080 div gcd 1920 1080))"
    by (rule fractReduce_pos) simp_all
  moreover have "gcd (1920::int) 1080 = 120"
    by (simp add: gcd_red_int [of 1920 1080] gcd_red_int [of 1080 840]
        gcd_red_int [of 840 240] gcd_red_int [of 240 120])
  ultimately show "fractReduce 1920 1080 = (Some 16, Some 9)" by simp
qed

theorem fractReduce_lowest_terms_witness:
  "(0::int) < 4 \<and> (0::int) < 6 \<and>
   (\<exists>p q. fractReduce 4 6 = (Some p, Some q) \<and> 0 < p \<and> 0 < q \<and>
         gcd p q = 1 \<and> p * 6 = q * 4 \<and>
         p * greatestCommonDenominator 4 6 = 4 \<and> q * greatestCommonDenominator 4 6 = 6)"
  using fractReduce_lowest_terms [of 4 6] by simp

section \<open>Resolving request URLs: properties\<close>

lemma drop_match_slashes:
  "drop (match_slashes path) path = dropWhile (\<lambda>c. c = CHR ''/'') path"
  by (induction path) simp_all

lemma dropWhile_slashes_replicate:
  "rest = [] \<or> hd rest \<noteq> CHR ''/'' \<Longrightarrow>
   dropWhile (\<lambda>c. c = CHR ''/'') (replicate n (CHR ''/'') @ rest) = rest"
  by (induction n) (auto simp: dropWhile_eq_self_iff)

text \<open>
  C9. For every path, \<open>resolveUrl\<close> returns the base URL followed by the path without
  its leading run of slashes, and nothing else is removed: when the path is \<open>n\<close>
  slashes followed by a rest that does not begin with a slash, the result is the base URL
  followed by that rest as it is, later slashes included.
\<close>

theorem resolveUrl_strips_leading_slashes:
  "resolveUrl baseUrl path = baseUrl @ dropWhile (\<lambda>c. c = CHR ''/'') path
   \<and> (rest = [] \<or> hd rest \<noteq> CHR ''/'' \<longrightarrow>
        resolveUrl baseUrl (replicate n (CHR ''/'') @ rest) = baseUrl @ rest)"
proof -
  have eq: "resolveUrl baseUrl p = baseUrl @ dropWhile (\<lambda>c. c = CHR ''/'') p" for p
    unfolding resolveUrl_def replace_slashes_def
    by (simp only: drop_match_slashes append_Nil)
  show ?thesis
  proof (intro conjI impI)
    show "resolveUrl baseUrl path = baseUrl @ dropWhile (\<lambda>c. c = CHR ''/'') path"
      by (rule eq)
  next
    assume "rest = [] \<or> hd rest \<noteq> CHR ''/''"
    then have "dropWhile (\<lambda>c. c = CHR ''/'') (replicate n (CHR ''/'') @ rest) = rest"
      by (rule dropWhile_slashes_replicate)
    then show "resolveUrl baseUrl (replicate n (CHR ''/'') @ rest) = baseUrl @ rest"
      by (simp only: eq)
  qed
qed

theorem resolveUrl_strips_leading_slashes_witness:
  "resolveUrl ''http://localhost:9090/'' ''//file.get/a//b/'' =
     ''http://localhost:9090/file.get/a//b/''"
proof -
  have r: "''file.get/a//b/'' = [] \<or> hd ''file.get/a//b/'' \<noteq> CHR ''/''"
    by simp
  have "resolveUrl ''http://localhost:9090/'' (replicate 2 (CHR ''/'') @ ''file.get/a//b/'')
      = ''http://localhost:9090/'' @ ''file.get/a//b/''"
    using resolveUrl_strips_leading_slashes [of "''http://localhost:9090/''"
        "''//file.get/a//b/''" "''file.get/a//b/''" 2] r
    by blast
  then show ?thesis
    by (simp add: numeral_2_eq_2)
qed

section \<open>The editor's render loop: properties\<close>

lemma reentrant_render_funpow:
  "(reentrant_render ^^ n) e = (if n = 0 then e else e\<lparr>isPendingRender := True\<rparr>)"
  by (induction n) (simp_all add: reentrant_render_def)

lemma render_template_eq:
  "render_template n e =
     (if n = 0 then e\<lparr>rendered := rendered e + 1\<rparr>
      else e\<lparr>rendered := rendered e + 1, isPendingRender := True\<rparr>)"
  by (simp add: render_template_def reentrant_render_funpow)

lemma render_busy: "isRendering e \<Longrightarrow> render script e = reentrant_render e"
  by (simp add: render.simps [of script e] reentrant_render_def)

lemma render_idle_Nil:
  "\<not> isRendering e \<Longrightarrow>
   render [] e = e\<lparr>isPendingRender := False, rendered := rendered e + 1,
                   completed := completed e + 1\<rparr>"
  by (simp add: render.simps [of "[]" e] render_template_eq)

lemma render_idle_zero:
  "\<not> isRendering e \<Longrightarrow>
   render (0 # script) e = e\<lparr>isPendingRender := False, rendered := rendered e + 1,
                   completed := completed e + 1\<rparr>"
  by (simp add: render.simps [of "0 # script" e] render_template_eq)

lemma render_idle_pos:
  assumes "\<not> isRendering e" "0 < n"
  shows "render (n # script) e =
     render script (e\<lparr>isPendingRender := True, rendered := rendered e + 1,
                       completed := completed e + 1\<rparr>)"
  using assms
  by (cases e) (simp add: render.simps [of "n # script"] render_template_eq)

lemma render_idle_summary:
  "\<not> isRendering e \<Longrightarrow>
   rendered (render script e) = rendered e + 1 + length (takeWhile (\<lambda>n. 0 < n) script) \<and>
   completed (render script e) = completed e + 1 + length (takeWhile (\<lambda>n. 0 < n) script) \<and>
   \<not> isRendering (render script e) \<and> \<not> isPendingRender (render script e)"
proof (induction script arbitrary: e)
  case Nil
  then show ?case by (simp add: render_idle_Nil)
next
  case (Cons n script)
  show ?case
  proof (cases "n = 0")
    case True
    with Cons.prems show ?thesis by (simp add: render_idle_zero)
  next
    case False
    then have n: "0 < n" by simp
    let ?e = "e\<lparr>isPendingRender := True, rendered := rendered e + 1,
                 completed := completed e + 1\<rparr>"
    have "\<not> isRendering ?e" using Cons.prems by simp
    from Cons.IH [OF this] show ?thesis
      using Cons.prems n by (simp add: render_idle_pos)
  qed
qed

text \<open>
  C8. A render request that arrives while a render is in progress is deferred: it only
  sets the pending flag and renders nothing. When requests arrived during a rendering of
  the template, exactly one more rendering follows right after it, however many the
  requests were (the pending flag is one boolean, so \<open>n\<close> requests leave the same state
  as one), and the editor ends idle with nothing pending. The number of renderings is
  one more than the number of leading renderings during which requests arrived.
\<close>

theorem render_coalesces:
  "(isRendering e \<longrightarrow>
      render script e = e\<lparr>isPendingRender := True\<rparr> \<and>
      rendered (render script e) = rendered e)
   \<and> (\<not> isRendering e \<longrightarrow>
      rendered (render script e) = rendered e + 1 + length (takeWhile (\<lambda>n. 0 < n) script) \<and>
      \<not> isRendering (render script e) \<and> \<not> isPendingRender (render script e))
   \<and> (\<not> isRendering e \<and> 0 < n \<longrightarrow>
      render (n # script) e = render (1 # script) e \<and>
      rendered (render [n] e) = rendered e + 2 \<and>
      isPendingRender (render_template n (e\<lparr>isPendingRender := False, isRendering := True\<rparr>)))"
proof (intro conjI impI)
  assume "isRendering e"
  then show "render script e = e\<lparr>isPendingRender := True\<rparr>"
    by (simp add: render_busy reentrant_render_def)
  then show "rendered (render script e) = rendered e" by simp
next
  assume idle: "\<not> isRendering e"
  from render_idle_summary [OF idle, of script]
  show "rendered (render script e) =
      rendered e + 1 + length (takeWhile (\<lambda>n. 0 < n) script)"
    and "\<not> isRendering (render script e)" and "\<not> isPendingRender (render script e)"
    by simp_all
next
  assume h: "\<not> isRendering e \<and> 0 < n"
  then show "render (n # script) e = render (1 # script) e"
    by (simp add: render_idle_pos)
  from h render_idle_summary [of e "[n]"] show "rendered (render [n] e) = rendered e + 2"
    by simp
  from h show "isPendingRender
      (render_template n (e\<lparr>isPendingRender := False, isRendering := True\<rparr>))"
    by (simp add: render_template_eq)
qed

theorem render_coalesces_witness:
  "isRendering \<lparr>isPendingRender = False, isRendering = True, rendered = 4, completed = 4\<rparr>
   \<and> render [3, 0] \<lparr>isPendingRender = False, isRendering = True, rendered = 4, completed = 4\<rparr>
     = \<lparr>isPendingRender = True, isRendering = True, rendered = 4, completed = 4\<rparr>
   \<and> \<not> isRendering \<lparr>isPendingRender = False, isRendering = False, rendered = 4, completed = 4\<rparr>
   \<and> (0::nat) < 3
   \<and> rendered (render [3, 0]
        \<lparr>isPendingRender = False, isRendering = False, rendered = 4, completed = 4\<rparr>) = 6
   \<and> render [3, 0] \<lparr>isPendingRender = False, isRendering = False, rendered = 4, completed = 4\<rparr>
     = render [1, 0] \<lparr>isPendingRender = False, isRendering = False, rendered = 4, completed = 4\<rparr>"
  using render_coalesces [of "\<lparr>isPendingRender = False, isRendering = True, rendered = 4, completed = 4\<rparr>" "[3, 0]" 3]
    render_coalesces [of "\<lparr>isPendingRender = False, isRendering = False, rendered = 4, completed = 4\<rparr>" "[3, 0]" 3]
    render_coalesces [of "\<lparr>isPendingRender = False, isRendering = False, rendered = 4, completed = 4\<rparr>" "[0]" 3]
  by simp

section \<open>Deep cleaning: properties\<close>





















section \<open>Onboarding: the step shown\<close>

lemma step_templateOrganizations: "step_of (snd (templateOrganizations p)) = ChooseOrg"
  by (simp add: templateOrganizations_def Let_def)

lemma step_templateRepositories: "step_of (snd (templateRepositories p)) = ChooseRepo"
  by (simp add: templateRepositories_def Let_def)

lemma step_templateWorkspaces: "step_of (snd (templateWorkspaces p)) = ChooseWorkspace"
  by (simp add: templateWorkspaces_def Let_def)

lemma step_template:
  "step_of (snd (template p)) =
     (if \<not> api_checkAuth p then Login
      else if \<not> truthy (api_organization p) then ChooseOrg
      else if \<not> truthy (api_project p) then ChooseRepo
      else ChooseWorkspace)"
  by (simp add: template_def step_templateOrganizations step_templateRepositories
      step_templateWorkspaces)

text \<open>
  C1. The step that \<open>template\<close> shows is a total function of the identity alone: Login
  when \<open>checkAuth\<close> fails, otherwise ChooseOrg when there is no organization,
  otherwise ChooseRepo when there is no project, otherwise ChooseWorkspace, where
  "no organization" and "no project" are what the code's \<^verbatim>\<open>!this.api.organization\<close> and
  \<^verbatim>\<open>!this.api.project\<close> test (undefined, or the empty string). Replacing the loaded
  lists, their tags, the installation and the filter by anything else leaves the step
  as it is.
\<close>

theorem template_step_determined_by_identity:
  "step_of (snd (template p)) =
     (if \<not> api_checkAuth p then Login
      else if \<not> truthy (api_organization p) then ChooseOrg
      else if \<not> truthy (api_project p) then ChooseRepo
      else ChooseWorkspace)
   \<and> step_of (snd (template (p\<lparr>organizations := os, installation := i, listFilter := f,
          repositories := rs, repositoriesId := ri, workspaces := ws,
          workspacesId := wi\<rparr>))) = step_of (snd (template p))"
  by (simp add: step_template)

theorem template_step_determined_by_identity_witness:
  "step_of (snd (template fresh_part)) = ChooseOrg
   \<and> step_of (snd (template (fresh_part\<lparr>organizations := Some [acme, other],
          installation := Some acme, listFilter := Some ''x'',
          repositories := Some [acme_site], repositoriesId := Some 1,
          workspaces := Some acme_branches, workspacesId := Some ''site''\<rparr>))) = ChooseOrg"
  using template_step_determined_by_identity [where p = fresh_part
      and os = "Some [acme, other]" and i = "Some acme" and f = "Some ''x''"
      and rs = "Some [acme_site]" and ri = "Some 1" and ws = "Some acme_branches"
      and wi = "Some ''site''"]
  by (simp add: fresh_part_def truthy_def)

section \<open>Onboarding: requests issued by a render\<close>

lemma requests_templateOrganizations:
  "requests (fst (templateOrganizations p)) =
     (if organizations p = None then requests p @ [GetOrganizations] else requests p)"
  "loading (snd (templateOrganizations p)) = (organizations p = None)"
  by (simp_all add: templateOrganizations_def Let_def loadOrganizations_def)

lemma requests_templateWorkspaces:
  "requests (fst (templateWorkspaces p)) =
     (if workspaces p = None \<or> truthy (workspacesId p) \<and> api_project p \<noteq> workspacesId p
      then requests p @ [GetWorkspaces (api_organization p) (api_project p)]
      else requests p)"
  "loading (snd (templateWorkspaces p)) =
     (workspaces p = None \<or> truthy (workspacesId p) \<and> api_project p \<noteq> workspacesId p)"
  by (auto simp: templateWorkspaces_def Let_def loadWorkspaces_def)

lemma requests_loadRepositories:
  assumes "truthy (api_organization p)"
  shows "requests (loadRepositories p) =
     requests p @ (if organizations p = None then [GetOrganizations] else []) @
       (case installation p of
          Some i \<Rightarrow> [GetRepositories (inst_id i)]
        | None \<Rightarrow>
            (case organizations p of
               None \<Rightarrow> []
             | Some os \<Rightarrow>
                 (case find (\<lambda>organization. Some (org organization) = api_organization p) os of
                    None \<Rightarrow> []
                  | Some i \<Rightarrow> [GetRepositories (inst_id i)])))"
proof (cases "organizations p")
  case None
  then show ?thesis
    using assms
    by (cases "installation p")
      (simp_all add: loadRepositories_def Let_def loadOrganizations_def)
next
  case (Some os)
  show ?thesis
  proof (cases "installation p")
    case i: (Some i)
    then show ?thesis
      using assms Some by (simp add: loadRepositories_def Let_def)
  next
    case None
    then show ?thesis
      using assms Some
      by (cases "find (\<lambda>organization. Some (org organization) = api_organization p) os")
        (simp_all add: loadRepositories_def Let_def part_render_def)
  qed
qed

lemma loadRepositories_not_installed:
  assumes "truthy (api_organization p)" "organizations p = Some os" "installation p = None"
    and "find (\<lambda>organization. Some (org organization) = api_organization p) os = None"
  shows "repositories (loadRepositories p) = Some []"
    and "renderRequests (loadRepositories p) = renderRequests p + 1"
  using assms by (simp_all add: loadRepositories_def Let_def part_render_def)

lemma requests_templateRepositories:
  assumes "truthy (api_organization p)"
  shows "requests (fst (templateRepositories p)) =
     (if repositories p = None \<or>
         truthy_number (repositoriesId p) \<and>
         map_option inst_id (installation p) \<noteq> repositoriesId p
      then requests p @ (if organizations p = None then [GetOrganizations] else []) @
        (case installation p of
           Some i \<Rightarrow> [GetRepositories (inst_id i)]
         | None \<Rightarrow>
             (case organizations p of
                None \<Rightarrow> []
              | Some os \<Rightarrow>
                  (case find (\<lambda>organization. Some (org organization) = api_organization p) os of
                     None \<Rightarrow> []
                   | Some i \<Rightarrow> [GetRepositories (inst_id i)])))
      else requests p)"
proof -
  define p1 where "p1 =
      (if repositories p \<noteq> None \<and> truthy_number (repositoriesId p) \<and>
          map_option inst_id (installation p) \<noteq> repositoriesId p
       then p\<lparr>repositories := None\<rparr> else p)"
  have same: "requests p1 = requests p" "organizations p1 = organizations p"
    "installation p1 = installation p" "api_organization p1 = api_organization p"
    by (simp_all add: p1_def)
  have t: "truthy (api_organization p1)" using assms same by simp
  have absent: "(repositories p1 = None) =
      (repositories p = None \<or>
       truthy_number (repositoriesId p) \<and>
       map_option inst_id (installation p) \<noteq> repositoriesId p)"
    by (auto simp: p1_def)
  have L: "requests (loadRepositories p1) =
      requests p @ (if organizations p = None then [GetOrganizations] else []) @
        (case installation p of
           Some i \<Rightarrow> [GetRepositories (inst_id i)]
         | None \<Rightarrow>
             (case organizations p of
                None \<Rightarrow> []
              | Some os \<Rightarrow>
                  (case find (\<lambda>organization. Some (org organization) = api_organization p) os of
                     None \<Rightarrow> []
                   | Some i \<Rightarrow> [GetRepositories (inst_id i)])))"
    using requests_loadRepositories [OF t] unfolding same .
  have f: "fst (templateRepositories p) =
      (if repositories p1 = None then loadRepositories p1 else p1)"
    by (simp add: templateRepositories_def Let_def p1_def)
  show ?thesis
  proof (cases "repositories p1 = None")
    case True
    then have "fst (templateRepositories p) = loadRepositories p1"
      using f by simp
    then show ?thesis
      using True absent by (simp only: L if_True)
  next
    case False
    then have "fst (templateRepositories p) = p1"
      using f by auto
    then show ?thesis
      using False absent same(1) by (simp only: if_False)
  qed
qed

lemma templateRepositories_not_installed:
  assumes "truthy (api_organization p)"
    and "repositories p = None \<or> truthy_number (repositoriesId p) \<and>
         map_option inst_id (installation p) \<noteq> repositoriesId p"
    and "organizations p = Some os" "installation p = None"
    and "find (\<lambda>organization. Some (org organization) = api_organization p) os = None"
  shows "repositories (fst (templateRepositories p)) = Some []"
    and "renderRequests (fst (templateRepositories p)) = renderRequests p + 1"
    and "snd (templateRepositories p) = RepositoriesView [] False False"
proof -
  define p1 where "p1 = p\<lparr>repositories := None\<rparr>"
  have same: "repositories p = None \<Longrightarrow> p1 = p"
    unfolding p1_def by (cases p) simp
  have l: "repositories (loadRepositories p1) = Some []"
    "renderRequests (loadRepositories p1) = renderRequests p + 1"
    "listFilter (loadRepositories p1) = listFilter p"
    using assms(1,3,4,5)
    by (simp_all add: p1_def loadRepositories_def Let_def part_render_def)
  have f: "fst (templateRepositories p) = loadRepositories p1"
  proof (cases "repositories p")
    case None
    then show ?thesis
      by (simp add: templateRepositories_def Let_def same)
  next
    case (Some rs)
    then show ?thesis
      using assms(2) by (simp add: templateRepositories_def Let_def p1_def)
  qed
  have v: "snd (templateRepositories p) =
      RepositoriesView (shown (filtered_list repo (listFilter (loadRepositories p1))
          (repositories (loadRepositories p1))))
        (repositories (loadRepositories p1) = None)
        (use_filter (repositories (loadRepositories p1)))"
  proof (cases "repositories p")
    case None
    then show ?thesis
      by (simp add: templateRepositories_def Let_def same)
  next
    case (Some rs)
    then show ?thesis
      using assms(2) by (simp add: templateRepositories_def Let_def p1_def)
  qed
  show "repositories (fst (templateRepositories p)) = Some []"
    and "renderRequests (fst (templateRepositories p)) = renderRequests p + 1"
    by (simp_all add: f l)
  show "snd (templateRepositories p) = RepositoriesView [] False False"
    by (simp add: v l filtered_list_def shown_def use_filter_def MIN_FILTER_LENGTH_def)
qed

lemma renders_repeat:
  assumes step: "\<And>q. P q \<Longrightarrow> fst (template q) = q\<lparr>requests := requests q @ [c]\<rparr>"
    and keep: "\<And>q. P q \<Longrightarrow> P (q\<lparr>requests := requests q @ [c]\<rparr>)"
    and start: "P p"
  shows "requests (run (replicate n Render) p) = requests p @ replicate n c"
  using start
proof (induction n arbitrary: p)
  case 0
  then show ?case by simp
next
  case (Suc n)
  let ?q = "p\<lparr>requests := requests p @ [c]\<rparr>"
  have "requests (run (replicate n Render) ?q) = requests ?q @ replicate n c"
    using keep [OF Suc.prems] by (rule Suc.IH)
  then show ?case
    by (simp add: step [OF Suc.prems] replicate_app_Cons_same)
qed

lemma renders_organizations_step:
  assumes "api_checkAuth p" "\<not> truthy (api_organization p)" "organizations p = None"
  shows "requests (run (replicate n Render) p) = requests p @ replicate n GetOrganizations"
proof (rule renders_repeat [where P = "\<lambda>q. api_checkAuth q \<and> \<not> truthy (api_organization q) \<and>
    organizations q = None"])
  show "api_checkAuth p \<and> \<not> truthy (api_organization p) \<and> organizations p = None"
    using assms by simp
qed (simp_all add: template_def templateOrganizations_def Let_def loadOrganizations_def)

lemma renders_repositories_step:
  assumes "api_checkAuth p" "truthy (api_organization p)" "\<not> truthy (api_project p)"
    and "repositories p = None" "organizations p \<noteq> None" "installation p = Some i"
  shows "requests (run (replicate n Render) p) =
      requests p @ replicate n (GetRepositories (inst_id i))"
proof (rule renders_repeat [where P = "\<lambda>q. api_checkAuth q \<and> truthy (api_organization q) \<and>
    \<not> truthy (api_project q) \<and> repositories q = None \<and> organizations q \<noteq> None \<and>
    installation q = Some i"])
  show "api_checkAuth p \<and> truthy (api_organization p) \<and> \<not> truthy (api_project p) \<and>
      repositories p = None \<and> organizations p \<noteq> None \<and> installation p = Some i"
    using assms by simp
qed (auto simp: template_def templateRepositories_def loadRepositories_def Let_def)

lemma renders_workspaces_step:
  assumes "api_checkAuth p" "truthy (api_organization p)" "truthy (api_project p)"
    and "workspaces p = None"
  shows "requests (run (replicate n Render) p) =
      requests p @ replicate n (GetWorkspaces (api_organization p) (api_project p))"
proof (rule renders_repeat [where P = "\<lambda>q. api_checkAuth q \<and> truthy (api_organization q) \<and>
    truthy (api_project q) \<and> workspaces q = None \<and>
    api_organization q = api_organization p \<and> api_project q = api_project p"])
  show "api_checkAuth p \<and> truthy (api_organization p) \<and> truthy (api_project p) \<and>
      workspaces p = None \<and> api_organization p = api_organization p \<and>
      api_project p = api_project p"
    using assms by simp
qed (auto simp: template_def templateWorkspaces_def loadWorkspaces_def Let_def)

text \<open>
  The claim C2 as stated fails: two renders of the organizations step with no list
  loaded leave two identical requests in flight.
\<close>

theorem duplicate_fetch_counterexample:
  "requests (run [Render, Render] fresh_part) = [GetOrganizations, GetOrganizations]"
  by code_simp

text \<open>
  C2, amended. What a render request adds to the requests in flight depends only on the
  part as the request finds it, never on the requests already in flight.
  When the list of the current step is present (and, for repositories and workspaces,
  its tag does not make the template discard it), the render issues no request. When
  the list is absent or discarded, the render calls the loader, every time:
  in the organizations step it adds one \<open>GetOrganizations\<close>; in the workspaces step
  one \<open>GetWorkspaces\<close> for the current organization and project; in the repositories
  step a \<open>GetOrganizations\<close> when the organizations are not loaded, followed by a
  \<open>GetRepositories\<close> for the installation held or, when none is held, for the one
  found for the current organization among the loaded organizations. When the
  organizations are loaded, no installation is held and none is found, the loader
  issues no request: it stores the empty list and asks for a render. So \<open>n\<close> renders in
  a row of a step whose list stays absent add \<open>n\<close> identical requests.
\<close>

theorem template_requests:
  "(\<not> api_checkAuth p \<longrightarrow> requests (fst (template p)) = requests p)
   \<and> (api_checkAuth p \<and> \<not> truthy (api_organization p) \<longrightarrow>
        (organizations p \<noteq> None \<longrightarrow> requests (fst (template p)) = requests p) \<and>
        (organizations p = None \<longrightarrow>
           requests (fst (template p)) = requests p @ [GetOrganizations] \<and>
           loading (snd (template p)) \<and>
           requests (run (replicate n Render) p) =
             requests p @ replicate n GetOrganizations))
   \<and> (api_checkAuth p \<and> truthy (api_organization p) \<and> \<not> truthy (api_project p) \<longrightarrow>
        (repositories p \<noteq> None \<and>
         \<not> (truthy_number (repositoriesId p) \<and>
            map_option inst_id (installation p) \<noteq> repositoriesId p) \<longrightarrow>
           requests (fst (template p)) = requests p) \<and>
        (repositories p = None \<or>
         truthy_number (repositoriesId p) \<and>
         map_option inst_id (installation p) \<noteq> repositoriesId p \<longrightarrow>
           requests (fst (template p)) =
             requests p @ (if organizations p = None then [GetOrganizations] else []) @
               (case installation p of
                  Some i \<Rightarrow> [GetRepositories (inst_id i)]
                | None \<Rightarrow>
                    (case organizations p of
                       None \<Rightarrow> []
                     | Some os \<Rightarrow>
                         (case find (\<lambda>organization.
                                  Some (org organization) = api_organization p) os of
                            None \<Rightarrow> []
                          | Some i \<Rightarrow> [GetRepositories (inst_id i)])))) \<and>
        ((repositories p = None \<or>
          truthy_number (repositoriesId p) \<and>
          map_option inst_id (installation p) \<noteq> repositoriesId p) \<and>
         organizations p = Some os \<and> installation p = None \<and>
         find (\<lambda>organization. Some (org organization) = api_organization p) os = None \<longrightarrow>
           requests (fst (template p)) = requests p \<and>
           repositories (fst (template p)) = Some [] \<and>
           renderRequests (fst (template p)) = renderRequests p + 1 \<and>
           \<not> loading (snd (template p))) \<and>
        (repositories p = None \<and> organizations p \<noteq> None \<and> installation p = Some i \<longrightarrow>
           requests (run (replicate n Render) p) =
             requests p @ replicate n (GetRepositories (inst_id i))))
   \<and> (api_checkAuth p \<and> truthy (api_organization p) \<and> truthy (api_project p) \<longrightarrow>
        (workspaces p \<noteq> None \<and>
         \<not> (truthy (workspacesId p) \<and> api_project p \<noteq> workspacesId p) \<longrightarrow>
           requests (fst (template p)) = requests p) \<and>
        (workspaces p = None \<or>
         truthy (workspacesId p) \<and> api_project p \<noteq> workspacesId p \<longrightarrow>
           requests (fst (template p)) =
             requests p @ [GetWorkspaces (api_organization p) (api_project p)] \<and>
           loading (snd (template p))) \<and>
        (workspaces p = None \<longrightarrow>
           requests (run (replicate n Render) p) =
             requests p @ replicate n (GetWorkspaces (api_organization p) (api_project p))))"
proof (intro conjI impI)
  assume "\<not> api_checkAuth p"
  then show "requests (fst (template p)) = requests p"
    by (simp add: template_def)
next
  assume h: "api_checkAuth p \<and> \<not> truthy (api_organization p)"
  then have t: "template p = templateOrganizations p"
    by (simp add: template_def)
  {
    assume "organizations p \<noteq> None"
    then show "requests (fst (template p)) = requests p"
      by (simp add: t requests_templateOrganizations)
  }
  {
    assume n: "organizations p = None"
    then show "requests (fst (template p)) = requests p @ [GetOrganizations]"
      and "loading (snd (template p))"
      by (simp_all add: t requests_templateOrganizations)
    from h n show "requests (run (replicate n Render) p) =
        requests p @ replicate n GetOrganizations"
      by (simp add: renders_organizations_step)
  }
next
  assume h: "api_checkAuth p \<and> truthy (api_organization p) \<and> \<not> truthy (api_project p)"
  then have t: "template p = templateRepositories p" and o: "truthy (api_organization p)"
    by (simp_all add: template_def)
  {
    assume "repositories p \<noteq> None \<and>
        \<not> (truthy_number (repositoriesId p) \<and>
           map_option inst_id (installation p) \<noteq> repositoriesId p)"
    then show "requests (fst (template p)) = requests p"
      unfolding t by (simp only: requests_templateRepositories [OF o]) auto
  }
  {
    assume "repositories p = None \<or>
        truthy_number (repositoriesId p) \<and>
        map_option inst_id (installation p) \<noteq> repositoriesId p"
    then show "requests (fst (template p)) =
        requests p @ (if organizations p = None then [GetOrganizations] else []) @
          (case installation p of
             Some i \<Rightarrow> [GetRepositories (inst_id i)]
           | None \<Rightarrow>
               (case organizations p of
                  None \<Rightarrow> []
                | Some os \<Rightarrow>
                    (case find (\<lambda>organization.
                             Some (org organization) = api_organization p) os of
                       None \<Rightarrow> []
                     | Some i \<Rightarrow> [GetRepositories (inst_id i)])))"
      unfolding t by (simp only: requests_templateRepositories [OF o] if_True)
  }
  {
    assume a: "(repositories p = None \<or>
          truthy_number (repositoriesId p) \<and>
          map_option inst_id (installation p) \<noteq> repositoriesId p) \<and>
        organizations p = Some os \<and> installation p = None \<and>
        find (\<lambda>organization. Some (org organization) = api_organization p) os = None"
    then show "requests (fst (template p)) = requests p"
      unfolding t by (simp add: requests_templateRepositories [OF o])
    from a have a2: "repositories p = None \<or>
          truthy_number (repositoriesId p) \<and>
          map_option inst_id (installation p) \<noteq> repositoriesId p"
      and a3: "organizations p = Some os" and a4: "installation p = None"
      and a5: "find (\<lambda>organization. Some (org organization) = api_organization p) os = None"
      by blast+
    from templateRepositories_not_installed [OF o a2 a3 a4 a5]
    show "repositories (fst (template p)) = Some []"
      and "renderRequests (fst (template p)) = renderRequests p + 1"
      and "\<not> loading (snd (template p))"
      unfolding t by simp_all
  }
  {
    assume "repositories p = None \<and> organizations p \<noteq> None \<and> installation p = Some i"
    with h show "requests (run (replicate n Render) p) =
        requests p @ replicate n (GetRepositories (inst_id i))"
      by (simp add: renders_repositories_step)
  }
next
  assume h: "api_checkAuth p \<and> truthy (api_organization p) \<and> truthy (api_project p)"
  then have t: "template p = templateWorkspaces p"
    by (simp add: template_def)
  {
    assume "workspaces p \<noteq> None \<and>
        \<not> (truthy (workspacesId p) \<and> api_project p \<noteq> workspacesId p)"
    then show "requests (fst (template p)) = requests p"
      unfolding t by (simp only: requests_templateWorkspaces) auto
  }
  {
    assume a: "workspaces p = None \<or>
        truthy (workspacesId p) \<and> api_project p \<noteq> workspacesId p"
    then show "requests (fst (template p)) =
        requests p @ [GetWorkspaces (api_organization p) (api_project p)]"
      unfolding t by (simp only: requests_templateWorkspaces if_True)
    from a show "loading (snd (template p))"
      unfolding t by (simp only: requests_templateWorkspaces)
  }
  {
    assume "workspaces p = None"
    with h show "requests (run (replicate n Render) p) =
        requests p @ replicate n (GetWorkspaces (api_organization p) (api_project p))"
      by (simp add: renders_workspaces_step)
  }
qed

theorem template_requests_witness:
  "requests (fst (template (fresh_part\<lparr>api_checkAuth := False\<rparr>))) = []
   \<and> requests (fst (template fresh_part)) = [GetOrganizations]
   \<and> requests (run (replicate 3 Render) fresh_part) = replicate 3 GetOrganizations
   \<and> requests (fst (template (fresh_part\<lparr>organizations := Some [acme]\<rparr>))) = []
   \<and> requests (fst (template
        (fresh_part\<lparr>api_organization := Some ''acme'', organizations := Some [acme, other],
           installation := Some acme, repositories := Some [acme_site],
           repositoriesId := Some 1\<rparr>))) = []
   \<and> requests (fst (template
        (fresh_part\<lparr>api_organization := Some ''other'',
           organizations := Some [acme, other]\<rparr>))) = [GetRepositories 2]
   \<and> requests (fst (template
        (fresh_part\<lparr>api_organization := Some ''nobody'',
           organizations := Some [acme, other]\<rparr>))) = []
   \<and> repositories (fst (template
        (fresh_part\<lparr>api_organization := Some ''nobody'',
           organizations := Some [acme, other]\<rparr>))) = Some []
   \<and> requests (run (replicate 3 Render)
        (fresh_part\<lparr>api_organization := Some ''acme'', organizations := Some [acme, other],
           installation := Some acme\<rparr>)) = replicate 3 (GetRepositories 1)
   \<and> requests (fst (template filtering_workspaces)) = []
   \<and> requests (fst (template
        (fresh_part\<lparr>api_organization := Some ''acme'', api_project := Some ''site''\<rparr>)))
      = [GetWorkspaces (Some ''acme'') (Some ''site'')]
   \<and> requests (run (replicate 3 Render)
        (fresh_part\<lparr>api_organization := Some ''acme'', api_project := Some ''site''\<rparr>))
      = replicate 3 (GetWorkspaces (Some ''acme'') (Some ''site''))"
  using template_requests [where p = "fresh_part\<lparr>api_checkAuth := False\<rparr>"]
    template_requests [where p = fresh_part and n = 3]
    template_requests [where p = "fresh_part\<lparr>organizations := Some [acme]\<rparr>"]
    template_requests [where p = "fresh_part\<lparr>api_organization := Some ''acme'',
           organizations := Some [acme, other],
           installation := Some acme, repositories := Some [acme_site],
           repositoriesId := Some 1\<rparr>"]
    template_requests [where p = "fresh_part\<lparr>api_organization := Some ''other'',
           organizations := Some [acme, other]\<rparr>"]
    template_requests [where p = "fresh_part\<lparr>api_organization := Some ''nobody'',
           organizations := Some [acme, other]\<rparr>" and os = "[acme, other]"]
    template_requests [where p = "fresh_part\<lparr>api_organization := Some ''acme'',
           organizations := Some [acme, other], installation := Some acme\<rparr>"
           and i = acme and n = 3]
    template_requests [where p = filtering_workspaces]
    template_requests [where p = "fresh_part\<lparr>api_organization := Some ''acme'',
           api_project := Some ''site''\<rparr>" and n = 3]
  by (simp add: fresh_part_def filtering_workspaces_def truthy_def truthy_number_def
      acme_def other_def)

section \<open>Onboarding: stale lists\<close>

text \<open>
  C3. A list must never be rendered against an organization or project it was not
  fetched for. The code breaks this: after the session with two organizations the user
  is at \<open>other/site\<close>, the workspaces held were fetched for \<open>acme/site\<close>, and the
  next render shows them all, without loading status and without asking for the
  workspaces of \<open>other/site\<close>. The workspace list is tagged with the project name
  only, and both projects are called \<open>site\<close>.
\<close>

theorem stale_workspaces_rendered:
  "api_organization (run two_sites_session fresh_part) = Some ''other''
   \<and> api_project (run two_sites_session fresh_part) = Some ''site''
   \<and> workspacesFetchedFor (run two_sites_session fresh_part) =
        Some (Some ''acme'', Some ''site'')
   \<and> snd (template (run two_sites_session fresh_part)) =
        WorkspacesView acme_branches False False
   \<and> requests (fst (template (run two_sites_session fresh_part))) = []"
  by code_simp

lemma templateRepositories_discards:
  assumes "repositories p = Some rs" "repositoriesId p = Some x" "x \<noteq> 0"
    and "installation p = Some i" "inst_id i \<noteq> x"
  shows "repositories (fst (templateRepositories p)) = None"
    and "snd (templateRepositories p) = RepositoriesView [] True False"
    and "requests (fst (templateRepositories p)) =
      requests p @ (if organizations p = None then [GetOrganizations] else []) @
        [GetRepositories (inst_id i)]"
  using assms
  by (simp_all add: templateRepositories_def loadRepositories_def loadOrganizations_def
      Let_def truthy_number_def filtered_list_def shown_def use_filter_def)

lemma templateWorkspaces_discards:
  assumes "workspaces p = Some ws" "workspacesId p = Some w" "w \<noteq> []"
    and "api_project p \<noteq> Some w"
  shows "workspaces (fst (templateWorkspaces p)) = None"
    and "snd (templateWorkspaces p) = WorkspacesView [] True False"
    and "requests (fst (templateWorkspaces p)) =
      requests p @ [GetWorkspaces (api_organization p) (api_project p)]"
  using assms
  by (simp_all add: templateWorkspaces_def loadWorkspaces_def
      Let_def truthy_def filtered_list_def shown_def use_filter_def)

text \<open>
  What the tags do ensure. When a repository list is loaded and tagged with a non-zero
  installation id \<open>x\<close>, and the installation the part holds has another id, the template
  discards the list before it shows anything (no items, loading status) and asks for the
  repositories of the installation held. When a workspace list is loaded and tagged with
  a non-empty project name, and the current project is another one, the template
  discards the list and asks for the workspaces of the current organization and project.
\<close>

theorem stale_list_discarded:
  "(repositories p = Some rs \<and> repositoriesId p = Some x \<and> x \<noteq> 0 \<and>
    installation p = Some i \<and> inst_id i \<noteq> x \<longrightarrow>
      repositories (fst (templateRepositories p)) = None \<and>
      snd (templateRepositories p) = RepositoriesView [] True False \<and>
      requests (fst (templateRepositories p)) =
        requests p @ (if organizations p = None then [GetOrganizations] else []) @
          [GetRepositories (inst_id i)])
   \<and> (workspaces p = Some ws \<and> workspacesId p = Some w \<and> w \<noteq> [] \<and>
      api_project p \<noteq> Some w \<longrightarrow>
      workspaces (fst (templateWorkspaces p)) = None \<and>
      snd (templateWorkspaces p) = WorkspacesView [] True False \<and>
      requests (fst (templateWorkspaces p)) =
        requests p @ [GetWorkspaces (api_organization p) (api_project p)])"
  using templateRepositories_discards [of p rs x i] templateWorkspaces_discards [of p ws w]
  by blast

theorem stale_list_discarded_witness:
  "snd (templateRepositories
      (fresh_part\<lparr>api_organization := Some ''other'', organizations := Some [acme, other],
         installation := Some other, repositories := Some [acme_site],
         repositoriesId := Some 1\<rparr>)) = RepositoriesView [] True False
   \<and> requests (fst (templateRepositories
      (fresh_part\<lparr>api_organization := Some ''other'', organizations := Some [acme, other],
         installation := Some other, repositories := Some [acme_site],
         repositoriesId := Some 1\<rparr>))) = [GetRepositories 2]
   \<and> snd (templateWorkspaces
      (fresh_part\<lparr>api_organization := Some ''acme'', api_project := Some ''docs'',
         workspaces := Some acme_branches, workspacesId := Some ''site''\<rparr>))
      = WorkspacesView [] True False
   \<and> requests (fst (templateWorkspaces
      (fresh_part\<lparr>api_organization := Some ''acme'', api_project := Some ''docs'',
         workspaces := Some acme_branches, workspacesId := Some ''site''\<rparr>)))
      = [GetWorkspaces (Some ''acme'') (Some ''docs'')]"
  using stale_list_discarded [where
      p = "fresh_part\<lparr>api_organization := Some ''other'',
         organizations := Some [acme, other],
         installation := Some other, repositories := Some [acme_site],
         repositoriesId := Some 1\<rparr>"
      and rs = "[acme_site]" and x = 1 and i = other]
    stale_list_discarded [where
      p = "fresh_part\<lparr>api_organization := Some ''acme'', api_project := Some ''docs'',
         workspaces := Some acme_branches, workspacesId := Some ''site''\<rparr>"
      and ws = acme_branches and w = "''site''"]
  by (simp add: fresh_part_def other_def)

section \<open>Onboarding: popstate\<close>

text \<open>
  C4. A \<open>popstate\<close> event whose state is \<open>null\<close> makes \<open>handlePopstate\<close> throw a
  \<open>TypeError\<close>; with a state object, with or without the onboarding flag, it returns.
\<close>

theorem handlePopstate_null_state_throws:
  "handlePopstate None p = Inl TypeError
   \<and> (\<exists>p'. handlePopstate (Some s) p = Inr p')"
  by (simp add: handlePopstate_def)

section \<open>Onboarding: selecting an item\<close>

text \<open>
  The claim C5 as stated fails for workspaces: clicking a workspace while a filter is
  active leaves the filter in place and asks for no render.
\<close>

theorem clickWorkspace_counterexample:
  "listFilter filtering_workspaces = Some ''ma''
   \<and> listFilter (clickWorkspace \<lparr>name = ''main''\<rparr> filtering_workspaces) = Some ''ma''
   \<and> renderRequests (clickWorkspace \<lparr>name = ''main''\<rparr> filtering_workspaces) =
       renderRequests filtering_workspaces"
  by code_simp

lemma remove_first_prefix: "remove_first pattern (pattern @ rest) = rest"
proof (cases "pattern @ rest")
  case Nil
  then show ?thesis by simp
next
  case (Cons a list)
  have d: "drop (length pattern) (pattern @ rest) = rest" by simp
  have "prefix pattern (a # list)"
    using Cons by (metis prefixI)
  then have "remove_first pattern (a # list) = drop (length pattern) (a # list)"
    by simp
  then show ?thesis
    using d by (simp only: Cons)
qed

text \<open>
  C5, amended. Selecting an organization or a repository (from the list or from the
  recent projects) sets the identity's field, clears the filter, pushes a navigation
  entry that carries the new organization (and repository) and asks for a render. For
  a recent project the field set is the project id without the first occurrence of
  the organization and a slash, so \<open>org/repo\<close> under the organization \<open>org\<close> gives
  \<open>repo\<close>. Selecting a workspace sets the branch, pushes a navigation entry that
  carries the organization, project and new branch, and raises the onboarding update
  signal instead of asking for a render. A repository or workspace selection keeps the
  organization, a workspace selection keeps the project.
\<close>

theorem selection_handlers:
  "api_organization (clickOrganization c p) = Some (org c)
   \<and> installation (clickOrganization c p) = Some c
   \<and> listFilter (clickOrganization c p) = None
   \<and> pushed (clickOrganization c p) = pushed p @
       [(\<lparr>onboarding = True, nav_organization = api_organization (clickOrganization c p),
          nav_repository = None, nav_branch = None\<rparr>,
         org c, generateUrl (Some (org c)) None None)]
   \<and> renderRequests (clickOrganization c p) = renderRequests p + 1
   \<and> api_project (clickRepository r p) = Some (repo r)
   \<and> listFilter (clickRepository r p) = None
   \<and> pushed (clickRepository r p) = pushed p @
       [(\<lparr>onboarding = True, nav_organization = api_organization (clickRepository r p),
          nav_repository = api_project (clickRepository r p), nav_branch = None\<rparr>,
         repo r, generateUrl (api_organization p) (Some (repo r)) None)]
   \<and> renderRequests (clickRepository r p) = renderRequests p + 1
   \<and> api_organization (clickRepository r p) = api_organization p
   \<and> api_project (clickRecentProject projectId p) =
       Some (remove_first (interpolate (api_organization p) @ ''/'') projectId)
   \<and> (api_organization p = Some organization \<longrightarrow>
        api_project (clickRecentProject (organization @ ''/'' @ repository) p) =
          Some repository)
   \<and> api_organization (clickRecentProject projectId p) = api_organization p
   \<and> listFilter (clickRecentProject projectId p) = None
   \<and> pushed (clickRecentProject projectId p) = pushed p @
       [(\<lparr>onboarding = True,
          nav_organization = api_organization (clickRecentProject projectId p),
          nav_repository = api_project (clickRecentProject projectId p),
          nav_branch = None\<rparr>,
         or_empty (api_project (clickRecentProject projectId p)),
         generateUrl (api_organization p) (api_project (clickRecentProject projectId p)) None)]
   \<and> renderRequests (clickRecentProject projectId p) = renderRequests p + 1
   \<and> api_branch (clickWorkspace w p) = Some (name w)
   \<and> pushed (clickWorkspace w p) = pushed p @
       [(\<lparr>onboarding = True, nav_organization = api_organization (clickWorkspace w p),
          nav_repository = api_project (clickWorkspace w p),
          nav_branch = api_branch (clickWorkspace w p)\<rparr>,
         name w, generateUrl (api_organization p) (api_project p) (Some (name w)))]
   \<and> api_organization (clickWorkspace w p) = api_organization p
   \<and> api_project (clickWorkspace w p) = api_project p
   \<and> onboardingUpdates (clickWorkspace w p) = onboardingUpdates p + 1
   \<and> renderRequests (clickWorkspace w p) = renderRequests p"
proof -
  have "api_organization p = Some organization \<longrightarrow>
      remove_first (interpolate (api_organization p) @ ''/'') (organization @ ''/'' @ repository)
        = repository"
    using remove_first_prefix [of "organization @ ''/''" repository]
    by (simp add: interpolate_def)
  then show ?thesis
    by (simp add: clickOrganization_def clickRepository_def clickRecentProject_def
        clickWorkspace_def part_render_def Let_def or_empty_def)
qed

theorem selection_handlers_witness:
  "api_organization (clickOrganization acme fresh_part) = Some ''acme''
   \<and> api_project (clickRecentProject (''acme'' @ ''/'' @ ''site'')
        (clickOrganization acme fresh_part)) = Some ''site''
   \<and> listFilter (clickRecentProject (''acme'' @ ''/'' @ ''site'')
        (clickOrganization acme fresh_part)) = None
   \<and> api_branch (clickWorkspace \<lparr>name = ''main''\<rparr> filtering_workspaces) = Some ''main''
   \<and> renderRequests (clickWorkspace \<lparr>name = ''main''\<rparr> filtering_workspaces) =
        renderRequests filtering_workspaces"
proof -
  have o: "api_organization (clickOrganization acme fresh_part) = Some ''acme''"
    using selection_handlers [where c = acme and p = fresh_part]
    by (simp add: acme_def)
  show ?thesis
    using o
      selection_handlers [where p = "clickOrganization acme fresh_part"
        and organization = "''acme''" and repository = "''site''"
        and projectId = "''acme'' @ ''/'' @ ''site''"]
      selection_handlers [where p = filtering_workspaces and w = "\<lparr>name = ''main''\<rparr>"]
    by (simp add: interpolate_def)
qed

section \<open>Onboarding: filtering a list\<close>

text \<open>
  The claim C7 as stated fails for a filter of white space only: the list comes back
  whole, with items whose name does not contain the filter.
\<close>

theorem blank_filter_counterexample:
  "filtered_list name (Some '' '') (Some [\<lparr>name = ''main''\<rparr>]) = Some [\<lparr>name = ''main''\<rparr>]
   \<and> \<not> string_includes ''main'' '' ''"
  by code_simp

lemma filtered_list_Some:
  "filtered_list d f (Some xs) =
     Some (if truthy f \<and> trim (or_empty f) \<noteq> []
           then filter (\<lambda>x. string_includes (d x) (or_empty f)) xs else xs)"
  by (simp add: filtered_list_def)

text \<open>
  C7, amended. A filter with a character that is not white space returns the items
  whose name contains the filter, in their original order; an absent filter, the empty
  string and a filter of white space only return the list as it is; the result is always
  a subsequence of the list; and filtering a filtered list with the same filter changes
  nothing.
\<close>

theorem filtered_list_properties:
  "(truthy f \<and> trim (or_empty f) \<noteq> [] \<longrightarrow>
      filtered_list d f (Some xs) =
        Some (filter (\<lambda>x. string_includes (d x) (or_empty f)) xs))
   \<and> (f = None \<or> f = Some [] \<or> trim (or_empty f) = [] \<longrightarrow>
      filtered_list d f (Some xs) = Some xs)
   \<and> (\<exists>ys. filtered_list d f (Some xs) = Some ys \<and> subseq ys xs)
   \<and> filtered_list d f None = None
   \<and> filtered_list d f (filtered_list d f items) = filtered_list d f items"
proof (intro conjI impI)
  assume "truthy f \<and> trim (or_empty f) \<noteq> []"
  then show "filtered_list d f (Some xs) =
      Some (filter (\<lambda>x. string_includes (d x) (or_empty f)) xs)"
    by (simp add: filtered_list_Some)
next
  assume "f = None \<or> f = Some [] \<or> trim (or_empty f) = []"
  then show "filtered_list d f (Some xs) = Some xs"
    by (auto simp: filtered_list_Some truthy_def)
next
  show "\<exists>ys. filtered_list d f (Some xs) = Some ys \<and> subseq ys xs"
    by (simp add: filtered_list_Some)
next
  show "filtered_list d f None = None"
    by (simp add: filtered_list_def)
next
  show "filtered_list d f (filtered_list d f items) = filtered_list d f items"
    by (cases items) (simp_all add: filtered_list_def)
qed

theorem filtered_list_properties_witness:
  "filtered_list repo (Some ''it'') (Some [acme_site, other_site\<lparr>repo := ''docs''\<rparr>, other_site])
     = Some [acme_site, other_site]
   \<and> filtered_list repo (Some '' '') (Some [acme_site, other_site]) = Some [acme_site, other_site]"
proof -
  have a: "truthy (Some ''it'') \<and> trim (or_empty (Some ''it'')) \<noteq> []"
    by (simp add: truthy_def trim_def or_empty_def is_whitespace_def)
  have b: "Some '' '' = None \<or> Some '' '' = Some [] \<or> trim (or_empty (Some '' '')) = []"
    by (simp add: trim_def or_empty_def is_whitespace_def)
  have c: "filter (\<lambda>x. string_includes (repo x) (or_empty (Some ''it'')))
      [acme_site, other_site\<lparr>repo := ''docs''\<rparr>, other_site] = [acme_site, other_site]"
    by (simp add: acme_site_def other_site_def or_empty_def string_includes_def
        sublist_code)
  show ?thesis
    using filtered_list_properties [where f = "Some ''it''" and d = repo
        and xs = "[acme_site, other_site\<lparr>repo := ''docs''\<rparr>, other_site]"]
      filtered_list_properties [where f = "Some '' ''" and d = repo
        and xs = "[acme_site, other_site]"]
      a b c
    by simp
qed

end
